theory Spec2Isabelle
  imports Complex_Main "HOL-Library.Word" "HOL-Library.Sublist"
begin

section \<open>JavaScript strings\<close>

text \<open>
  A JavaScript string is a sequence of UTF-16 code units; \<open>.length\<close>, \<open>.slice\<close> and
  \<open>.includes\<close> count and compare code units. A code unit is a 16-bit word, a string
  the list of its code units.
\<close>

type_synonym jschar = "16 word"
type_synonym jsstring = "jschar list"

definition ascii :: "string \<Rightarrow> jsstring" where
  "ascii s = map (\<lambda>c. of_nat (of_char c)) s"

text \<open>
  The characters matched by \<open>\s\<close> in a regular expression and removed by
  \<open>String.prototype.trim\<close>: WhiteSpace and LineTerminator of ECMAScript.
\<close>

definition isWhiteSpace :: "jschar \<Rightarrow> bool" where
  "isWhiteSpace c \<longleftrightarrow>
     c = 0x09 \<or> c = 0x0A \<or> c = 0x0B \<or> c = 0x0C \<or> c = 0x0D \<or> c = 0x20 \<or>
     c = 0xA0 \<or> c = 0x1680 \<or> (0x2000 \<le> c \<and> c \<le> 0x200A) \<or>
     c = 0x2028 \<or> c = 0x2029 \<or> c = 0x202F \<or> c = 0x205F \<or> c = 0x3000 \<or>
     c = 0xFEFF"

definition trim :: "jsstring \<Rightarrow> jsstring" where
  "trim s = rev (dropWhile isWhiteSpace (rev (dropWhile isWhiteSpace s)))"

text \<open>\<open>s.replace(/\s+/g, " ")\<close>: every maximal run of white space becomes one space.\<close>

function collapseWs :: "jsstring \<Rightarrow> jsstring" where
  "collapseWs [] = []"
| "collapseWs (c # cs) =
     (if isWhiteSpace c then 0x20 # collapseWs (dropWhile isWhiteSpace cs)
      else c # collapseWs cs)"
  by pat_completeness auto
termination
  by (relation "measure length") (auto simp: le_imp_less_Suc length_dropWhile_le)

text \<open>\<open>s.includes(t)\<close>: \<open>t\<close> occurs in \<open>s\<close> as a contiguous run of code units.\<close>

fun includesStr :: "jsstring \<Rightarrow> jsstring \<Rightarrow> bool" where
  "includesStr [] t = (t = [])"
| "includesStr (c # cs) t = (prefix t (c # cs) \<or> includesStr cs t)"

text \<open>The index of the first occurrence of \<open>t\<close> in \<open>s\<close>, if there is one.\<close>

fun indexOf :: "jsstring \<Rightarrow> jsstring \<Rightarrow> nat option" where
  "indexOf [] t = (if t = [] then Some 0 else None)"
| "indexOf (c # cs) t =
     (if prefix t (c # cs) then Some 0 else map_option Suc (indexOf cs t))"

text \<open>\<open>lines.join(sep)\<close>.\<close>

fun join :: "jsstring \<Rightarrow> jsstring list \<Rightarrow> jsstring" where
  "join sep [] = []"
| "join sep [l] = l"
| "join sep (l # m # ls) = l @ sep @ join sep (m # ls)"

section \<open>Capture hygiene (capture-utils)\<close>

datatype role = User | Assistant

text \<open>
  A capture as \<open>sanitizeCaptures\<close> receives it: the text may be \<open>null\<close> or
  \<open>undefined\<close> (\<open>None\<close>), which \<open>String(c.text ?? "")\<close> turns into the empty string.
\<close>

record raw_capture =
  rc_role :: role
  rc_text :: "jsstring option"

record capture =
  c_role :: role
  c_text :: jsstring

definition RELEVANT_OPEN :: jsstring where
  "RELEVANT_OPEN = ascii ''<relevant-memories>''"

definition RELEVANT_CLOSE :: jsstring where
  "RELEVANT_CLOSE = ascii ''</relevant-memories>''"

definition SHORT_TERM_OPEN :: jsstring where
  "SHORT_TERM_OPEN = ascii ''<short-term-memory>''"

definition SHORT_TERM_CLOSE :: jsstring where
  "SHORT_TERM_CLOSE = ascii ''</short-term-memory>''"

definition sanitizeCaptures :: "raw_capture list \<Rightarrow> capture list" where
  "sanitizeCaptures captures =
     filter (\<lambda>c. \<not> includesStr (c_text c) RELEVANT_OPEN)
       (filter (\<lambda>c. length (c_text c) > 0)
          (map (\<lambda>c. \<lparr>c_role = rc_role c,
                      c_text = trim (case rc_text c of None \<Rightarrow> [] | Some t \<Rightarrow> t)\<rparr>)
             captures))"


section \<open>What Node and the store provide\<close>

datatype error = Error jsstring

text \<open>
  The rows of the store that the plugin reads with its own SQL. \<open>it_id\<close> is the primary
  key of \<open>items\<close>; \<open>emb_item_id\<close> refers to it from \<open>embeddings\<close>. Columns the
  plugin never reads are left out.
\<close>

record item_row =
  it_id :: jsstring
  it_created_at :: int
  it_text :: "jsstring option"
  it_tags :: "jsstring option"
  it_source :: "jsstring option"
  it_meta :: "jsstring option"
  it_session_id :: "jsstring option"

record embedding_row =
  emb_item_id :: jsstring

text \<open>
  A fact as \<open>extractFactsSimple\<close> returns it. The confidence is a finite double, taken
  as the rational number it denotes.
\<close>

record fact =
  f_subject :: jsstring
  f_predicate :: jsstring
  f_object :: jsstring
  f_confidence :: rat

record db =
  items :: "item_row list"
  embeddings :: "embedding_row list"
  facts :: "fact list"

text \<open>The argument of \<open>addItem\<close> in \<open>agent_end\<close>; its \<open>id\<close> is a fresh \<open>randomUUID()\<close>,
  which the model leaves to the store.\<close>

record capture_meta =
  m_role :: role
  m_sessionKey :: "jsstring option"
  m_channel :: "jsstring option"
  m_ts :: int
  m_h :: jsstring

record new_item =
  ni_title :: "jsstring option"
  ni_text :: jsstring
  ni_tags :: "jsstring option"
  ni_source :: jsstring
  ni_source_id :: "jsstring option"
  ni_meta :: capture_meta
  ni_entity_id :: "jsstring option"
  ni_process_id :: "jsstring option"
  ni_session_id :: "jsstring option"

record filter_opts =
  fo_entity_id :: "jsstring option"
  fo_process_id :: "jsstring option"
  fo_session_id :: "jsstring option"

text \<open>
  Functions of Node and of the core library \<open>@akashabot/openclaw-memory-offline-core\<close>,
  which are not part of this repository, are parameters of the model:
  \<^item> \<open>toLowerCase\<close>: \<open>String.prototype.toLowerCase\<close>;
  \<^item> \<open>sha1hex\<close>: \<open>createHash("sha1").update(s).digest("hex")\<close>;
  \<^item> \<open>hasLetterOrNumber\<close>: \<open>/[\p{L}\p{N}]/u.test(s)\<close>;
  \<^item> \<open>caseFold\<close>: the canonicalisation of a character under the flags \<open>iu\<close>;
  \<^item> \<open>isoDate\<close>: \<open>new Date(n).toISOString().slice(0, 10)\<close>, which throws out of range;
  \<^item> \<open>openDb\<close>: \<open>openDb\<close>, \<open>initSchema\<close> and \<open>runMigrations\<close> together: the error
    they throw, if any;
  \<^item> \<open>addItem\<close>, \<open>insertFact\<close>, \<open>extractFactsSimple\<close>, \<open>searchItems\<close> (results and
    escaped query), \<open>hybridSearch\<close>, \<open>hybridSearchFiltered\<close>: the core's functions; each
    may throw (\<open>Inl\<close>).
\<close>

record runtime =
  toLowerCase :: "jsstring \<Rightarrow> jsstring"
  sha1hex :: "jsstring \<Rightarrow> jsstring"
  hasLetterOrNumber :: "jsstring \<Rightarrow> bool"
  caseFold :: "jschar \<Rightarrow> jschar"
  isoDate :: "int \<Rightarrow> error + jsstring"
  openDb :: "db \<Rightarrow> error option"
  addItem :: "db \<Rightarrow> new_item \<Rightarrow> error + db"
  insertFact :: "db \<Rightarrow> fact \<Rightarrow> error + db"
  extractFactsSimple :: "jsstring \<Rightarrow> error + fact list"
  searchItems :: "db \<Rightarrow> jsstring \<Rightarrow> int \<Rightarrow> error + (item_row list \<times> jsstring)"
  hybridSearch :: "db \<Rightarrow> jsstring \<Rightarrow> int \<Rightarrow> error + item_row list"
  hybridSearchFiltered :: "db \<Rightarrow> jsstring \<Rightarrow> int \<Rightarrow> filter_opts \<Rightarrow> error + item_row list"

section \<open>Configuration\<close>

datatype search_mode = Lexical | Hybrid

text \<open>
  \<open>api.pluginConfig\<close>: a field that is absent, \<open>undefined\<close> or \<open>null\<close> is \<open>None\<close>.
  Numbers are the integers the configuration schema asks for. Fields that are only
  handed on to the core (paths, URLs, model names, the semantic weight, the candidate
  pool) are left out.
\<close>

record plugin_config =
  pc_topK :: "int option"
  pc_hybrid :: bool
  pc_captureMaxPerTurn :: "int option"
  pc_captureMinChars :: "int option"
  pc_captureMaxChars :: "int option"
  pc_captureDedupeWindowMs :: "int option"
  pc_captureDedupeMaxCheck :: "int option"
  pc_retentionDays :: "int option"
  pc_retentionProtectedTags :: "jsstring list option"

record cfg =
  topK :: int
  mode :: search_mode
  captureMaxPerTurn :: int
  captureMinChars :: int
  captureMaxChars :: int
  captureDedupeWindowMs :: int
  captureDedupeMaxCheck :: int
  retentionDays :: "int option"
  retentionProtectedTags :: "jsstring list"

definition orDefault :: "'a option \<Rightarrow> 'a \<Rightarrow> 'a" where
  "orDefault v d = (case v of None \<Rightarrow> d | Some x \<Rightarrow> x)"

definition getCfg :: "plugin_config \<Rightarrow> cfg" where
  "getCfg pc =
     \<lparr>topK = max 1 (min 20 (orDefault (pc_topK pc) 5)),
      mode = (if pc_hybrid pc then Hybrid else Lexical),
      captureMaxPerTurn = max 1 (min 50 (orDefault (pc_captureMaxPerTurn pc) 20)),
      captureMinChars = max 0 (min 500 (orDefault (pc_captureMinChars pc) 16)),
      captureMaxChars = max 200 (min 20000 (orDefault (pc_captureMaxChars pc) 4000)),
      captureDedupeWindowMs =
        max 0 (min (1000 * 60 * 60 * 24 * 30)
                   (orDefault (pc_captureDedupeWindowMs pc) (1000 * 60 * 60 * 24))),
      captureDedupeMaxCheck = max 10 (min 2000 (orDefault (pc_captureDedupeMaxCheck pc) 300)),
      retentionDays =
        (case pc_retentionDays pc of None \<Rightarrow> None | Some d \<Rightarrow> Some (max 1 (min 3650 d))),
      retentionProtectedTags =
        (case pc_retentionProtectedTags pc of None \<Rightarrow> [ascii ''personal''] | Some ts \<Rightarrow> ts)\<rparr>"

section \<open>Text normaliser and capture filter\<close>

text \<open>\<open>text.replace(/<relevant-memories>[\s\S]*?<\/relevant-memories>/g, " ")\<close>: scanning
  from the left, an opening marker that is followed by a closing marker is replaced, up
  to the first such closing marker, by one space.\<close>

function stripRelevant :: "jsstring \<Rightarrow> jsstring" where
  "stripRelevant [] = []"
| "stripRelevant (c # cs) =
     (if prefix RELEVANT_OPEN (c # cs) then
        (case indexOf (drop (length RELEVANT_OPEN) (c # cs)) RELEVANT_CLOSE of
           Some k \<Rightarrow>
             0x20 # stripRelevant
                      (drop (length RELEVANT_OPEN + k + length RELEVANT_CLOSE) (c # cs))
         | None \<Rightarrow> c # stripRelevant cs)
      else c # stripRelevant cs)"
  by pat_completeness auto
termination
  by (relation "measure length") (auto simp: RELEVANT_OPEN_def ascii_def)

definition normalizeForDedupe :: "runtime \<Rightarrow> jsstring \<Rightarrow> jsstring" where
  "normalizeForDedupe rt text = toLowerCase rt (trim (collapseWs (stripRelevant text)))"

definition textHash :: "runtime \<Rightarrow> jsstring \<Rightarrow> jsstring" where
  "textHash rt text = sha1hex rt text"

text \<open>The alternatives of the acknowledgement pattern, as the source file has them.\<close>

definition ackTokens :: "jsstring list" where
  "ackTokens =
     [ascii ''ok'', ascii ''okay'', ascii ''kk'', ascii ''merci'', ascii ''thanks'',
      ascii ''thx'', ascii ''oui'', ascii ''non'', ascii ''yep'', ascii ''nope'',
      [0xF0, 0x178, 0x2018], [0xF0, 0x178, 0x2018, 0x152], [0xE2, 0x153, 0x2026],
      ascii ''ok.'']"

definition isAck :: "runtime \<Rightarrow> jsstring \<Rightarrow> bool" where
  "isAck rt t \<longleftrightarrow> list_ex (\<lambda>a. map (caseFold rt) a = map (caseFold rt) t) ackTokens"

definition shouldSkipCapture :: "runtime \<Rightarrow> jsstring \<Rightarrow> int \<Rightarrow> bool" where
  "shouldSkipCapture rt text minChars =
     (let t = trim text in
      if t = [] then True
      else if minChars > 0 \<and> int (length t) < minChars then True
      else if \<not> hasLetterOrNumber rt t then True
      else if isAck rt t then True
      else False)"

text \<open>The literal appended to clipped text, as the source file has it: the three code
  units U+00E2, U+20AC, U+00A6.\<close>

definition ELLIPSIS :: jsstring where
  "ELLIPSIS = [0xE2, 0x20AC, 0xA6]"

section \<open>Dedupe index\<close>







section \<open>Capture pipeline (\<open>agent_end\<close>)\<close>

text \<open>
  The messages of the event. A message that is not an object is \<open>NonObject\<close>; a role
  other than \<open>"user"\<close> and \<open>"assistant"\<close> is \<open>None\<close>; a content block that is not an
  object of type \<open>"text"\<close> with a string \<open>text\<close> is \<open>OtherBlock\<close>.
\<close>

datatype block = TextBlock jsstring | OtherBlock

datatype content = StringContent jsstring | ArrayContent "block list" | OtherContent

datatype message = NonObject | Message "role option" content

record agent_end_event =
  ae_success :: bool
  ae_messages :: "message list option"
  ae_sessionKey :: "jsstring option"
  ae_channel :: "jsstring option"



definition roleName :: "role \<Rightarrow> jsstring" where
  "roleName r = (case r of User \<Rightarrow> ascii ''user'' | Assistant \<Rightarrow> ascii ''assistant'')"

text \<open>\<open>s.slice(0, n)\<close> for an integer \<open>n\<close>: a negative \<open>n\<close> counts from the end.\<close>

definition slice0 :: "int \<Rightarrow> jsstring \<Rightarrow> jsstring" where
  "slice0 n s = (if 0 \<le> n then take (nat n) s else take (length s - nat (- n)) s)"

definition clip :: "int \<Rightarrow> jsstring \<Rightarrow> jsstring" where
  "clip maxChars text =
     (if int (length text) > maxChars then slice0 maxChars text @ ELLIPSIS else text)"

definition captureItem ::
  "cfg \<Rightarrow> agent_end_event \<Rightarrow> int \<Rightarrow> role \<Rightarrow> jsstring \<Rightarrow> jsstring \<Rightarrow> new_item" where
  "captureItem cf ev now r text h =
     \<lparr>ni_title = None,
      ni_text = clip (captureMaxChars cf) text,
      ni_tags = Some (roleName r),
      ni_source = ascii ''openclaw'',
      ni_source_id = None,
      ni_meta = \<lparr>m_role = r, m_sessionKey = ae_sessionKey ev, m_channel = ae_channel ev,
                 m_ts = now, m_h = h\<rparr>,
      ni_entity_id = Some (if r = User then ascii ''user'' else ascii ''agent''),
      ni_process_id = Some (ascii ''akasha''),
      ni_session_id = ae_sessionKey ev\<rparr>"

text \<open>
  The state of the capture loop: the store, the set \<open>recentHashes\<close>, the counter
  \<open>stored\<close>. The \<open>trace\<close> is the one addition to the source's variables: it records,
  for each iteration, the branch the loop body took.
\<close>

datatype outcome = SkippedNoise | SkippedDuplicate | Inserted new_item | InsertFailed error

record capture_state =
  cs_db :: db
  recentHashes :: "jsstring set"
  stored :: nat
  trace :: "outcome list"

text \<open>One iteration of the loop body. The first component is the exception that
  \<open>addItem\<close> threw, if it did; nothing in the loop catches it.\<close>

definition capture_body ::
  "runtime \<Rightarrow> cfg \<Rightarrow> agent_end_event \<Rightarrow> int \<Rightarrow> capture \<Rightarrow> capture_state
     \<Rightarrow> error option \<times> capture_state" where
  "capture_body rt cf ev now c st =
     (if shouldSkipCapture rt (c_text c) (captureMinChars cf) then
        (None, st\<lparr>trace := trace st @ [SkippedNoise]\<rparr>)
      else
        let h = textHash rt (normalizeForDedupe rt (c_text c)) in
        if captureDedupeWindowMs cf > 0 \<and> h \<in> recentHashes st then
          (None, st\<lparr>trace := trace st @ [SkippedDuplicate]\<rparr>)
        else
          let st1 = st\<lparr>recentHashes := insert h (recentHashes st)\<rparr>;
              item = captureItem cf ev now (c_role c) (c_text c) h
          in case addItem rt (cs_db st1) item of
               Inl e \<Rightarrow> (Some e, st1\<lparr>trace := trace st1 @ [InsertFailed e]\<rparr>)
             | Inr d \<Rightarrow>
                 (None, st1\<lparr>cs_db := d, stored := stored st1 + 1,
                            trace := trace st1 @ [Inserted item]\<rparr>))"

text \<open>\<open>for (let i = 0; i < Math.min(maxPerTurn, cleaned.length); i++)\<close>\<close>

function capture_loop ::
  "runtime \<Rightarrow> cfg \<Rightarrow> agent_end_event \<Rightarrow> int \<Rightarrow> capture list \<Rightarrow> nat \<Rightarrow> capture_state
     \<Rightarrow> error option \<times> capture_state" where
  "capture_loop rt cf ev now cleaned i st =
     (if int i < min (captureMaxPerTurn cf) (int (length cleaned)) then
        (case capture_body rt cf ev now (cleaned ! i) st of
           (Some e, st') \<Rightarrow> (Some e, st')
         | (None, st') \<Rightarrow> capture_loop rt cf ev now cleaned (i + 1) st')
      else (None, st))"
  by pat_completeness auto
termination
  by (relation "measure (\<lambda>(rt, cf, ev, now, cleaned, i, st). length cleaned - i)") auto

declare capture_loop.simps [simp del]





text \<open>
  The process: the store, the log (with, for a degradation warning, the clock reading
  at which it was written) and the module variable \<open>lastHybridDegradedLogTs\<close>.
\<close>

datatype probe = ProbeOk | ProbeHttpError nat | ProbeTimeout | ProbeNetworkError

datatype log_entry =
    InfoAutoCaptured nat
  | InfoFactsExtracted nat
  | InfoInjecting nat
  | WarnMissingMessages
  | WarnHybridDegraded int probe
  | WarnAutoRecallFailed error
  | ErrorAgentEndFailed error

record world =
  w_db :: db
  w_log :: "log_entry list"
  lastHybridDegradedLogTs :: int

definition logMsg :: "log_entry \<Rightarrow> world \<Rightarrow> world" where
  "logMsg l w = w\<lparr>w_log := w_log w @ [l]\<rparr>"



section \<open>Hybrid degradation guard and \<open>recall\<close>\<close>

definition maybeLogHybridDegraded :: "int \<Rightarrow> probe \<Rightarrow> world \<Rightarrow> world" where
  "maybeLogHybridDegraded now reason w =
     (let intervalMs = 1000 * 60 * 60 in
      if now - lastHybridDegradedLogTs w < intervalMs then w
      else logMsg (WarnHybridDegraded now reason) (w\<lparr>lastHybridDegradedLogTs := now\<rparr>))"

definition truthy :: "jsstring option \<Rightarrow> bool" where
  "truthy v \<longleftrightarrow> (case v of None \<Rightarrow> False | Some s \<Rightarrow> s \<noteq> [])"

definition lexicalResults ::
  "runtime \<Rightarrow> db \<Rightarrow> jsstring \<Rightarrow> int \<Rightarrow> error + item_row list" where
  "lexicalResults rt d query k =
     (case searchItems rt d query k of Inl e \<Rightarrow> Inl e | Inr (results, escaped) \<Rightarrow> Inr results)"

text \<open>
  \<open>recall\<close>. \<open>pr\<close> is the outcome of the liveness probe (the \<open>fetch\<close> of the embeddings
  endpoint) and \<open>now\<close> the reading of \<open>Date.now()\<close> in \<open>maybeLogHybridDegraded\<close>; both
  are consulted in hybrid mode only.
\<close>

definition recall ::
  "runtime \<Rightarrow> plugin_config \<Rightarrow> probe \<Rightarrow> int \<Rightarrow> jsstring \<Rightarrow> int option \<Rightarrow> filter_opts option
     \<Rightarrow> world \<Rightarrow> (error + item_row list) \<times> world" where
  "recall rt pc pr now query limit flt w =
     (let cf = getCfg pc;
          k = max 1 (min 20 (orDefault limit (topK cf)))
      in case openDb rt (w_db w) of
           Some e \<Rightarrow> (Inl e, w)
         | None \<Rightarrow>
             if mode cf = Hybrid then
               (if pr \<noteq> ProbeOk then
                  (let w' = maybeLogHybridDegraded now pr w
                   in (lexicalResults rt (w_db w) query k, w'))
                else
                  case searchItems rt (w_db w) query 1 of
                    Inl e \<Rightarrow> (Inl e, w)
                  | Inr (results, escapedQuery) \<Rightarrow>
                      (case flt of
                         Some f \<Rightarrow>
                           if truthy (fo_entity_id f) \<or> truthy (fo_process_id f)
                              \<or> truthy (fo_session_id f)
                           then (hybridSearchFiltered rt (w_db w) escapedQuery k f, w)
                           else (hybridSearch rt (w_db w) escapedQuery k, w)
                       | None \<Rightarrow> (hybridSearch rt (w_db w) escapedQuery k, w)))
             else (lexicalResults rt (w_db w) query k, w))"

section \<open>Recall assembler (\<open>before_agent_start\<close>)\<close>

record bas_event =
  be_prompt :: "jsstring option"
  be_sessionKey :: "jsstring option"

text \<open>\<open>SELECT created_at, text, tags FROM items WHERE session_id = ? AND tags IN
  ('user','assistant') ORDER BY created_at DESC LIMIT 50\<close>\<close>

definition shortTermRows :: "db \<Rightarrow> jsstring \<Rightarrow> item_row list" where
  "shortTermRows d sid =
     take 50
       (rev (sort_key it_created_at
          (filter (\<lambda>r. it_session_id r = Some sid \<and>
                        (it_tags r = Some (ascii ''user'') \<or> it_tags r = Some (ascii ''assistant'')))
             (items d))))"

definition rowText :: "item_row \<Rightarrow> jsstring" where
  "rowText r = trim (collapseWs (orDefault (it_text r) []))"

definition shortTermLine :: "item_row \<Rightarrow> jsstring" where
  "shortTermLine r =
     (let role = (if it_tags r = Some (ascii ''assistant'') then ascii ''assistant''
                  else ascii ''user'');
          text = rowText r;
          snippet = (if length text > 300 then take 300 text @ ELLIPSIS else text)
      in ascii ''[role: '' @ role @ ascii ''] '' @ snippet)"

text \<open>The accumulation loop over \<open>rows.reverse()\<close>, with its variables \<open>count\<close>,
  \<open>chars\<close> and \<open>lines\<close>.\<close>

fun shortTermLines :: "item_row list \<Rightarrow> nat \<Rightarrow> nat \<Rightarrow> jsstring list \<Rightarrow> jsstring list" where
  "shortTermLines [] count chars lines = lines"
| "shortTermLines (r # rs) count chars lines =
     (if count \<ge> 15 \<or> chars \<ge> 2000 then lines
      else if rowText r = [] then shortTermLines rs count chars lines
      else
        let line = shortTermLine r in
        if chars + length line > 2000 then lines
        else shortTermLines rs (count + 1) (chars + length line) (lines @ [line]))"

definition NL :: jsstring where
  "NL = [0x0A]"

definition wrapShortTerm :: "jsstring list \<Rightarrow> jsstring" where
  "wrapShortTerm lines =
     SHORT_TERM_OPEN @ NL @ ascii ''Recent messages (same session):'' @ NL @
     join NL lines @ NL @ SHORT_TERM_CLOSE"

definition shortTermBlock :: "db \<Rightarrow> jsstring option \<Rightarrow> jsstring" where
  "shortTermBlock d sessionId =
     (case sessionId of
        None \<Rightarrow> []
      | Some sid \<Rightarrow>
          if sid = [] then []
          else
            let lines = shortTermLines (rev (shortTermRows d sid)) 0 0 [] in
            if lines \<noteq> [] then wrapShortTerm lines else [])"

definition memoryLine :: "runtime \<Rightarrow> item_row \<Rightarrow> error + jsstring" where
  "memoryLine rt item =
     (let text = rowText item;
          snippet = (if length text > 200 then take 200 text @ ELLIPSIS else text);
          tag = trim (orDefault (it_tags item) []);
          source = trim (orDefault (it_source item) [])
      in case (if it_created_at item \<noteq> 0 then isoDate rt (it_created_at item) else Inr []) of
           Inl e \<Rightarrow> Inl e
         | Inr date \<Rightarrow>
             let bits = join (ascii '' '')
                          (filter (\<lambda>b. b \<noteq> [])
                             [if tag \<noteq> [] then ascii ''tag:'' @ tag else [],
                              if source \<noteq> [] then ascii ''src:'' @ source else [],
                              if date \<noteq> [] then ascii ''date:'' @ date else []])
             in Inr (if bits \<noteq> [] then ascii ''- '' @ snippet @ ascii '' ('' @ bits @ ascii '')''
                     else ascii ''- '' @ snippet))"

fun memoryLines :: "runtime \<Rightarrow> item_row list \<Rightarrow> error + jsstring list" where
  "memoryLines rt [] = Inr []"
| "memoryLines rt (r # rs) =
     (case memoryLine rt r of
        Inl e \<Rightarrow> Inl e
      | Inr l \<Rightarrow> (case memoryLines rt rs of Inl e \<Rightarrow> Inl e | Inr ls \<Rightarrow> Inr (l # ls)))"

definition wrapRelevant :: "jsstring list \<Rightarrow> jsstring" where
  "wrapRelevant lines =
     RELEVANT_OPEN @ NL @
     ascii ''The following memories may be relevant to this conversation:'' @ NL @
     join NL lines @ NL @ RELEVANT_CLOSE"

text \<open>The handler of \<open>before_agent_start\<close>: the \<open>prependContext\<close> it returns, if any.\<close>

definition before_agent_start ::
  "runtime \<Rightarrow> plugin_config \<Rightarrow> probe \<Rightarrow> int \<Rightarrow> bas_event \<Rightarrow> world \<Rightarrow> jsstring option \<times> world" where
  "before_agent_start rt pc pr now ev w =
     (let prompt = trim (orDefault (be_prompt ev) []) in
      if length prompt < 5 then (None, w)
      else
        case openDb rt (w_db w) of
          Some e \<Rightarrow> (None, logMsg (WarnAutoRecallFailed e) w)
        | None \<Rightarrow>
            let shortTerm = shortTermBlock (w_db w) (be_sessionKey ev) in
            case recall rt pc pr now prompt (Some 3) None w of
              (Inl e, w1) \<Rightarrow> (None, logMsg (WarnAutoRecallFailed e) w1)
            | (Inr results, w1) \<Rightarrow>
                case (if results \<noteq> [] then
                        (case memoryLines rt (take 3 results) of
                           Inl e \<Rightarrow> Inl e
                         | Inr lines \<Rightarrow>
                             Inr (wrapRelevant lines,
                                  logMsg (InfoInjecting (min 3 (length results))) w1))
                      else Inr ([], w1)) of
                  Inl e \<Rightarrow> (None, logMsg (WarnAutoRecallFailed e) w1)
                | Inr (recallBlock, w2) \<Rightarrow>
                    if shortTerm = [] \<and> recallBlock = [] then (None, w2)
                    else (Some (join (NL @ NL)
                                  (filter (\<lambda>b. b \<noteq> []) [shortTerm, recallBlock])), w2))"

section \<open>Retention (\<open>memory_gc\<close>)\<close>

record gc_params =
  gp_dryRun :: "bool option"
  gp_retentionDays :: "int option"
  gp_protectTags :: "jsstring list option"
  gp_limit :: "int option"

text \<open>The SQL statements of \<open>memory_gc\<close> may throw: the error each one throws, if any.\<close>

record sql_faults =
  sf_select :: "error option"
  sf_deleteEmbeddings :: "error option"
  sf_deleteItems :: "error option"
  sf_vacuum :: "error option"

datatype gc_result =
    GcSkipped
  | GcDryRun int nat "item_row list"
  | GcDeleted int nat nat

text \<open>\<open>WHERE created_at < ? AND (tags IS NULL OR tags NOT IN (...))\<close>; the second
  conjunct is there only when \<open>protectedTags\<close> is not empty.\<close>

definition gcWhere :: "jsstring list \<Rightarrow> int \<Rightarrow> item_row \<Rightarrow> bool" where
  "gcWhere protectedTags cutoff r \<longleftrightarrow>
     it_created_at r < cutoff \<and>
     (protectedTags = [] \<or>
      (case it_tags r of None \<Rightarrow> True | Some t \<Rightarrow> t \<notin> set protectedTags))"

text \<open>\<open>SELECT id, created_at, tags FROM items WHERE ... ORDER BY created_at ASC LIMIT ?\<close>\<close>

definition gcRows :: "jsstring list \<Rightarrow> int \<Rightarrow> int \<Rightarrow> db \<Rightarrow> item_row list" where
  "gcRows protectedTags cutoff scanLimit d =
     take (nat scanLimit) (sort_key it_created_at (filter (gcWhere protectedTags cutoff) (items d)))"

text \<open>The body of the transaction: \<open>DELETE FROM embeddings WHERE item_id IN (ids)\<close>, then
  \<open>DELETE FROM items WHERE id IN (ids)\<close>; the result counts the rows each one removed.\<close>

definition gcDelete :: "sql_faults \<Rightarrow> jsstring list \<Rightarrow> db \<Rightarrow> error + ((nat \<times> nat) \<times> db)" where
  "gcDelete sf ids d =
     (if ids = [] then Inr ((0, 0), d)
      else
        case sf_deleteEmbeddings sf of
          Some e \<Rightarrow> Inl e
        | None \<Rightarrow>
            let d1 = d\<lparr>embeddings := filter (\<lambda>e. emb_item_id e \<notin> set ids) (embeddings d)\<rparr>;
                delEmb = length (embeddings d) - length (embeddings d1)
            in case sf_deleteItems sf of
                 Some e \<Rightarrow> Inl e
               | None \<Rightarrow>
                   let d2 = d1\<lparr>items := filter (\<lambda>r. it_id r \<notin> set ids) (items d1)\<rparr>;
                       delItems = length (items d1) - length (items d2)
                   in Inr ((delItems, delEmb), d2))"

text \<open>\<open>db.transaction(fn)()\<close> of better-sqlite3: the changes of \<open>fn\<close> are committed when
  it returns and rolled back when it throws, and the exception is thrown on.\<close>

definition transaction :: "(db \<Rightarrow> error + ('a \<times> db)) \<Rightarrow> db \<Rightarrow> (error + 'a) \<times> db" where
  "transaction fn d = (case fn d of Inl e \<Rightarrow> (Inl e, d) | Inr (r, d') \<Rightarrow> (Inr r, d'))"

text \<open>\<open>VACUUM\<close> rebuilds the file and leaves the rows as they are.\<close>

definition vacuum :: "sql_faults \<Rightarrow> db \<Rightarrow> error + db" where
  "vacuum sf d = (case sf_vacuum sf of Some e \<Rightarrow> Inl e | None \<Rightarrow> Inr d)"

text \<open>The variables \<open>days\<close>, \<open>protectedTags\<close>, \<open>cutoff\<close> and \<open>lim\<close> of \<open>memory_gc\<close>.\<close>

definition gcDays :: "plugin_config \<Rightarrow> gc_params \<Rightarrow> int option" where
  "gcDays pc params =
     (case gp_retentionDays params of Some n \<Rightarrow> Some n | None \<Rightarrow> retentionDays (getCfg pc))"

definition gcProtectedTags :: "plugin_config \<Rightarrow> gc_params \<Rightarrow> jsstring list" where
  "gcProtectedTags pc params =
     orDefault (gp_protectTags params) (retentionProtectedTags (getCfg pc))"

definition gcCutoff :: "int \<Rightarrow> int \<Rightarrow> int" where
  "gcCutoff now days = now - days * 24 * 60 * 60 * 1000"

definition gcLimit :: "gc_params \<Rightarrow> int" where
  "gcLimit params = max 1 (min 5000 (orDefault (gp_limit params) 1000))"

text \<open>The tool \<open>memory_gc\<close>: what \<open>execute\<close> returns, or the exception it throws, and
  the store afterwards.\<close>

definition memory_gc ::
  "runtime \<Rightarrow> sql_faults \<Rightarrow> plugin_config \<Rightarrow> gc_params \<Rightarrow> int \<Rightarrow> db \<Rightarrow> (error + gc_result) \<times> db" where
  "memory_gc rt sf pc params now d =
     (case openDb rt d of
        Some e \<Rightarrow> (Inl e, d)
      | None \<Rightarrow>
          case gcDays pc params of
            None \<Rightarrow> (Inr GcSkipped, d)
          | Some days \<Rightarrow>
              let protectedTags = gcProtectedTags pc params;
                  cutoff = gcCutoff now days;
                  scanLimit = gcLimit params
              in case sf_select sf of
                   Some e \<Rightarrow> (Inl e, d)
                 | None \<Rightarrow>
                     let rows = gcRows protectedTags cutoff scanLimit d;
                         ids = map it_id rows
                     in if gp_dryRun params \<noteq> Some False then
                          (Inr (GcDryRun cutoff (length ids) (take 20 rows)), d)
                        else
                          case transaction (gcDelete sf ids) d of
                            (Inl e, d') \<Rightarrow> (Inl e, d')
                          | (Inr (delItems, delEmb), d') \<Rightarrow>
                              (Inr (GcDeleted cutoff delItems delEmb),
                               (case vacuum sf d' of Inl e \<Rightarrow> d' | Inr d'' \<Rightarrow> d'')))"

section \<open>Notions used to state the properties\<close>

text \<open>A candidate is noise when the capture filter skips it; its hash is the hash of
  its normalised text.\<close>

definition isNoise :: "runtime \<Rightarrow> cfg \<Rightarrow> capture \<Rightarrow> bool" where
  "isNoise rt cf c \<longleftrightarrow> shouldSkipCapture rt (c_text c) (captureMinChars cf)"

definition candidateHash :: "runtime \<Rightarrow> capture \<Rightarrow> jsstring" where
  "candidateHash rt c = textHash rt (normalizeForDedupe rt (c_text c))"

text \<open>The dedupe window when a candidate is reached: the hashes \<open>R\<close> that the store
  query gave, and the hashes of the earlier candidates of the turn that passed the
  capture filter.\<close>

definition dedupeWindow :: "runtime \<Rightarrow> cfg \<Rightarrow> jsstring set \<Rightarrow> capture list \<Rightarrow> jsstring set" where
  "dedupeWindow rt cf R earlier = R \<union> candidateHash rt ` {c \<in> set earlier. \<not> isNoise rt cf c}"

text \<open>Candidate \<open>k\<close> was stored: iteration \<open>k\<close> ran and its \<open>addItem\<close> returned.\<close>

definition storedAt :: "outcome list \<Rightarrow> nat \<Rightarrow> bool" where
  "storedAt tr k \<longleftrightarrow> k < length tr \<and> (case tr ! k of Inserted item \<Rightarrow> True | _ \<Rightarrow> False)"



text \<open>The number of iterations of the capture loop: \<open>Math.min(maxPerTurn, cleaned.length)\<close>.\<close>

definition turnBound :: "cfg \<Rightarrow> capture list \<Rightarrow> nat" where
  "turnBound cf cleaned = nat (min (captureMaxPerTurn cf) (int (length cleaned)))"

text \<open>The capture loop over the list of the candidates it visits.\<close>

fun capture_list ::
  "runtime \<Rightarrow> cfg \<Rightarrow> agent_end_event \<Rightarrow> int \<Rightarrow> capture list \<Rightarrow> capture_state
     \<Rightarrow> error option \<times> capture_state" where
  "capture_list rt cf ev now [] st = (None, st)"
| "capture_list rt cf ev now (c # cs) st =
     (case capture_body rt cf ev now c st of
        (Some e, st') \<Rightarrow> (Some e, st')
      | (None, st') \<Rightarrow> capture_list rt cf ev now cs st')"



text \<open>The lines of the rows of a session, in the order of the rows, a row without text
  giving none; the rows as the accumulation loop walks them, and the lines it keeps.\<close>

definition renderedLines :: "item_row list \<Rightarrow> jsstring list" where
  "renderedLines rows = map shortTermLine (filter (\<lambda>r. rowText r \<noteq> []) rows)"

definition sessionRows :: "db \<Rightarrow> jsstring \<Rightarrow> item_row list" where
  "sessionRows d sid = rev (shortTermRows d sid)"

definition sessionLines :: "db \<Rightarrow> jsstring \<Rightarrow> jsstring list" where
  "sessionLines d sid = shortTermLines (sessionRows d sid) 0 0 []"


text \<open>The candidates that \<open>memory_gc\<close> selects, and eligibility as the specification
  words it: older than the retention horizon, and the tag, if there is one, not among
  the protected tags.\<close>

definition gcCandidates :: "plugin_config \<Rightarrow> gc_params \<Rightarrow> int \<Rightarrow> int \<Rightarrow> db \<Rightarrow> item_row list" where
  "gcCandidates pc params now days d =
     gcRows (gcProtectedTags pc params) (gcCutoff now days) (gcLimit params) d"

definition gcEligible :: "jsstring list \<Rightarrow> int \<Rightarrow> int \<Rightarrow> item_row \<Rightarrow> bool" where
  "gcEligible protectedTags now days r \<longleftrightarrow>
     it_created_at r < now - days * 86400000 \<and>
     (case it_tags r of None \<Rightarrow> True | Some t \<Rightarrow> t \<notin> set protectedTags)"

section \<open>A runtime for the examples\<close>

text \<open>
  A stand-in for Node and the core library on ASCII text, used to run the model on
  concrete inputs: lower-casing of ASCII letters, the identity for the digest, a store
  whose \<open>addItem\<close> appends a row. The second runtime differs in that its \<open>addItem\<close> throws
  on one particular text.
\<close>

definition asciiLower :: "jschar \<Rightarrow> jschar" where
  "asciiLower c = (if 0x41 \<le> c \<and> c \<le> 0x5A then c + 0x20 else c)"

definition isAsciiAlnum :: "jschar \<Rightarrow> bool" where
  "isAsciiAlnum c \<longleftrightarrow>
     (0x30 \<le> c \<and> c \<le> 0x39) \<or> (0x41 \<le> c \<and> c \<le> 0x5A) \<or> (0x61 \<le> c \<and> c \<le> 0x7A)"

definition appendItem :: "db \<Rightarrow> new_item \<Rightarrow> db" where
  "appendItem d item =
     d\<lparr>items := items d @
          [\<lparr>it_id = ascii ''item-'' @ replicate (length (items d)) 0x2B,
            it_created_at = m_ts (ni_meta item),
            it_text = Some (ni_text item),
            it_tags = ni_tags item,
            it_source = Some (ni_source item),
            it_meta = Some (ascii ''{\"h\":\"'' @ m_h (ni_meta item) @ ascii ''\"}''),
            it_session_id = ni_session_id item\<rparr>]\<rparr>"

definition test_runtime :: runtime where
  "test_runtime =
     \<lparr>toLowerCase = map asciiLower,
      sha1hex = (\<lambda>s. s),
      hasLetterOrNumber = list_ex isAsciiAlnum,
      caseFold = asciiLower,
      isoDate = (\<lambda>n. Inr (ascii ''1970-01-01'')),
      openDb = (\<lambda>d. None),
      addItem = (\<lambda>d item. Inr (appendItem d item)),
      insertFact = (\<lambda>d f. Inr (d\<lparr>facts := facts d @ [f]\<rparr>)),
      extractFactsSimple = (\<lambda>t. Inr []),
      searchItems = (\<lambda>d q k. Inr ([], q)),
      hybridSearch = (\<lambda>d q k. Inr []),
      hybridSearchFiltered = (\<lambda>d q k f. Inr [])\<rparr>"

definition failing_runtime :: runtime where
  "failing_runtime =
     test_runtime\<lparr>addItem := (\<lambda>d item.
        if ni_text item = ascii ''this insert fails'' then Inl (Error (ascii ''SQLITE_BUSY''))
        else Inr (appendItem d item))\<rparr>"

definition default_config :: plugin_config where
  "default_config =
     \<lparr>pc_topK = None, pc_hybrid = False, pc_captureMaxPerTurn = None,
      pc_captureMinChars = None, pc_captureMaxChars = None,
      pc_captureDedupeWindowMs = None, pc_captureDedupeMaxCheck = None,
      pc_retentionDays = None, pc_retentionProtectedTags = None\<rparr>"

definition empty_db :: db where
  "empty_db = \<lparr>items = [], embeddings = [], facts = []\<rparr>"

definition empty_event :: agent_end_event where
  "empty_event = \<lparr>ae_success = True, ae_messages = Some [], ae_sessionKey = None, ae_channel = None\<rparr>"

definition no_dedupe_config :: plugin_config where
  "no_dedupe_config = default_config\<lparr>pc_captureDedupeWindowMs := Some 0\<rparr>"

definition start_state :: capture_state where
  "start_state = \<lparr>cs_db = empty_db, recentHashes = {}, stored = 0, trace = []\<rparr>"

definition start_world :: world where
  "start_world = \<lparr>w_db = empty_db, w_log = [], lastHybridDegradedLogTs = 0\<rparr>"

text \<open>A turn that says the same thing twice, with an acknowledgement in between.\<close>

definition coffee_batch :: "capture list" where
  "coffee_batch =
     [\<lparr>c_role = User, c_text = ascii ''I like coffee a lot''\<rparr>,
      \<lparr>c_role = User, c_text = ascii ''ok''\<rparr>,
      \<lparr>c_role = Assistant, c_text = ascii ''i like  coffee a LOT''\<rparr>]"


definition failing_batch :: "capture list" where
  "failing_batch =
     [\<lparr>c_role = User, c_text = ascii ''this insert fails''\<rparr>,
      \<lparr>c_role = Assistant, c_text = ascii ''a second message to store''\<rparr>]"


text \<open>A session with two captures, and one whose ten oldest captures give lines of 200
  characters each.\<close>

definition session_row :: "int \<Rightarrow> jsstring \<Rightarrow> jsstring \<Rightarrow> item_row" where
  "session_row t tag text =
     \<lparr>it_id = ascii ''row-'' @ replicate (nat t) 0x2B, it_created_at = t, it_text = Some text,
      it_tags = Some tag, it_source = Some (ascii ''openclaw''), it_meta = None,
      it_session_id = Some (ascii ''s1'')\<rparr>"

definition chat_world :: world where
  "chat_world =
     start_world\<lparr>w_db := empty_db\<lparr>items :=
        [session_row 1 (ascii ''user'') (ascii ''my  name is Ada''),
         session_row 2 (ascii ''assistant'') (ascii ''Nice to meet you, Ada.'')]\<rparr>\<rparr>"

definition budget_db :: db where
  "budget_db =
     empty_db\<lparr>items :=
       [session_row 1 (ascii ''user'') (replicate 187 0x61),
        session_row 2 (ascii ''user'') (replicate 187 0x62),
        session_row 3 (ascii ''user'') (replicate 187 0x63),
        session_row 4 (ascii ''user'') (replicate 187 0x64),
        session_row 5 (ascii ''user'') (replicate 187 0x65),
        session_row 6 (ascii ''user'') (replicate 187 0x66),
        session_row 7 (ascii ''user'') (replicate 187 0x67),
        session_row 8 (ascii ''user'') (replicate 187 0x68),
        session_row 9 (ascii ''user'') (replicate 187 0x69),
        session_row 10 (ascii ''user'') (replicate 187 0x6A),
        session_row 11 (ascii ''user'') (ascii ''the latest message'')]\<rparr>"

text \<open>A store of three items that are older than 30 days at the clock reading
  \<open>gc_now\<close> (100 days): a personal one and two work items, each with an embedding.\<close>

definition DAY :: int where
  "DAY = 24 * 60 * 60 * 1000"

definition gc_now :: int where
  "gc_now = 100 * DAY"

definition gc_item :: "string \<Rightarrow> int \<Rightarrow> string \<Rightarrow> item_row" where
  "gc_item name t tag =
     \<lparr>it_id = ascii name, it_created_at = t, it_text = Some (ascii ''text''),
      it_tags = Some (ascii tag), it_source = Some (ascii ''openclaw''), it_meta = None,
      it_session_id = None\<rparr>"

definition gc_db :: db where
  "gc_db =
     \<lparr>items = [gc_item ''A'' (60 * DAY) ''personal'', gc_item ''B'' (60 * DAY) ''work'',
               gc_item ''C'' (61 * DAY) ''work''],
      embeddings = [\<lparr>emb_item_id = ascii ''A''\<rparr>, \<lparr>emb_item_id = ascii ''B''\<rparr>,
                    \<lparr>emb_item_id = ascii ''C''\<rparr>],
      facts = []\<rparr>"

definition no_faults :: sql_faults where
  "no_faults = \<lparr>sf_select = None, sf_deleteEmbeddings = None, sf_deleteItems = None,
                sf_vacuum = None\<rparr>"

definition gc_request :: "bool \<Rightarrow> int \<Rightarrow> gc_params" where
  "gc_request dry n =
     \<lparr>gp_dryRun = Some dry, gp_retentionDays = Some 30, gp_protectTags = None,
      gp_limit = Some n\<rparr>"


section \<open>Properties\<close>

subsection \<open>Sanitising captures\<close>

lemma includesStr_iff: "includesStr s t \<longleftrightarrow> (\<exists>i\<le>length s. prefix t (drop i s))"
proof (induction s)
  case Nil
  then show ?case by simp
next
  case (Cons c cs)
  show ?case
  proof
    assume "includesStr (c # cs) t"
    then consider "prefix t (c # cs)" | "includesStr cs t" by auto
    then show "\<exists>i\<le>length (c # cs). prefix t (drop i (c # cs))"
    proof cases
      case 1
      then have "prefix t (drop 0 (c # cs))" by simp
      then show ?thesis by blast
    next
      case 2
      with Cons.IH obtain i where "i \<le> length cs" "prefix t (drop i cs)" by blast
      then have "Suc i \<le> length (c # cs)" "prefix t (drop (Suc i) (c # cs))" by simp_all
      then show ?thesis by blast
    qed
  next
    assume "\<exists>i\<le>length (c # cs). prefix t (drop i (c # cs))"
    then obtain i where i: "i \<le> length (c # cs)" "prefix t (drop i (c # cs))" by blast
    show "includesStr (c # cs) t"
    proof (cases i)
      case 0
      with i show ?thesis by simp
    next
      case (Suc j)
      with i have "j \<le> length cs" "prefix t (drop j cs)" by simp_all
      with Cons.IH show ?thesis by auto
    qed
  qed
qed

text \<open>
  What \<open>sanitizeCaptures\<close> does guarantee: the output texts are trimmed and non-empty,
  none contains the relevant-memories marker, and the roles and the order of the
  surviving captures are those of the input.
\<close>

lemma sanitizeCaptures_texts:
  "c \<in> set (sanitizeCaptures cs) \<Longrightarrow>
     c_text c \<noteq> [] \<and> \<not> includesStr (c_text c) RELEVANT_OPEN \<and>
     (\<exists>r \<in> set cs. c_role c = rc_role r \<and>
        c_text c = trim (case rc_text r of None \<Rightarrow> [] | Some t \<Rightarrow> t))"
  by (auto simp: sanitizeCaptures_def)


text \<open>
  C5. The claim: \<open>sanitizeCaptures\<close> drops every message whose text contains an
  injected-context marker, the relevant-memories marker and the short-term-memory marker
  alike. The code tests for \<open><relevant-memories>\<close> only. A user message that carries
  the short-term block which \<open>before_agent_start\<close> prepended survives sanitising
  unchanged, marker included.
\<close>

theorem sanitizeCaptures_keeps_short_term_marker:
  "sanitizeCaptures
     [\<lparr>rc_role = User,
       rc_text = Some (SHORT_TERM_OPEN @ ascii ''Recent messages (same session):'' @
                       ascii ''[role: user] hello there'' @ SHORT_TERM_CLOSE @
                       ascii ''What did I say?'')\<rparr>]
   = [\<lparr>c_role = User,
       c_text = SHORT_TERM_OPEN @ ascii ''Recent messages (same session):'' @
                ascii ''[role: user] hello there'' @ SHORT_TERM_CLOSE @
                ascii ''What did I say?''\<rparr>]
   \<and> includesStr (SHORT_TERM_OPEN @ ascii ''Recent messages (same session):'' @
                ascii ''[role: user] hello there'' @ SHORT_TERM_CLOSE @
                ascii ''What did I say?'') SHORT_TERM_OPEN"
  by (simp add: sanitizeCaptures_def trim_def isWhiteSpace_def ascii_def
      RELEVANT_OPEN_def SHORT_TERM_OPEN_def SHORT_TERM_CLOSE_def)

subsection \<open>The capture loop\<close>

text \<open>The loop with its index visits the first \<open>turnBound\<close> candidates in order.\<close>

lemma capture_loop_eq_list:
  "capture_loop rt cf ev now cleaned i st =
     capture_list rt cf ev now (drop i (take (turnBound cf cleaned) cleaned)) st"
proof (induction rt cf ev now cleaned i st rule: capture_loop.induct)
  case (1 rt cf ev now cleaned i st)
  show ?case
  proof (cases "int i < min (captureMaxPerTurn cf) (int (length cleaned))")
    case True
    then have i: "i < turnBound cf cleaned" "i < length cleaned"
      by (auto simp: turnBound_def)
    then have d: "drop i (take (turnBound cf cleaned) cleaned) =
                cleaned ! i # drop (Suc i) (take (turnBound cf cleaned) cleaned)"
      by (simp add: Cons_nth_drop_Suc [symmetric])
    show ?thesis
      using True "1.IH" [OF True]
      by (subst capture_loop.simps) (auto simp: d split: prod.splits option.splits)
  next
    case False
    then have "turnBound cf cleaned \<le> i" by (auto simp: turnBound_def)
    then have "drop i (take (turnBound cf cleaned) cleaned) = []" by simp
    with False show ?thesis by (subst capture_loop.simps) auto
  qed
qed

lemma dedupeWindow_Nil: "dedupeWindow rt cf R [] = R"
  by (simp add: dedupeWindow_def)

lemma dedupeWindow_Cons:
  "dedupeWindow rt cf R (c # cs) =
     dedupeWindow rt cf (if isNoise rt cf c then R else insert (candidateHash rt c) R) cs"
  by (auto simp: dedupeWindow_def)







text \<open>The definitions that a run of the model on a concrete input unfolds.\<close>

lemmas run_defs =
  Let_def capture_loop_eq_list turnBound_def getCfg_def default_config_def no_dedupe_config_def
  orDefault_def capture_body_def shouldSkipCapture_def trim_def isWhiteSpace_def ascii_def
  test_runtime_def failing_runtime_def isAck_def ackTokens_def asciiLower_def isAsciiAlnum_def
  normalizeForDedupe_def textHash_def start_state_def captureItem_def clip_def appendItem_def
  RELEVANT_OPEN_def empty_db_def empty_event_def roleName_def coffee_batch_def
  failing_batch_def isNoise_def candidateHash_def dedupeWindow_Nil dedupeWindow_Cons
  storedAt_def







subsection \<open>A failing insert\<close>





subsection \<open>Clipping\<close>

lemma clip_short: "int (length text) \<le> maxChars \<Longrightarrow> clip maxChars text = text"
  by (simp add: clip_def)

lemma clip_long:
  "0 \<le> maxChars \<Longrightarrow> maxChars < int (length text) \<Longrightarrow>
     clip maxChars text = take (nat maxChars) text @ ELLIPSIS
     \<and> int (length (clip maxChars text)) = maxChars + 3"
  by (simp add: clip_def slice0_def ELLIPSIS_def)

text \<open>
  C10. The claim: text longer than \<open>captureMaxChars\<close> is cut to that length and one
  ellipsis character is appended, so that the stored text exceeds the cap by exactly
  one. The string literal that the source file appends is not the ellipsis U+2026 but the
  three code units U+00E2, U+20AC, U+00A6 (the bytes of the ellipsis read in a wrong
  encoding). A message of 4001 characters under the default cap of 4000 is stored with
  4003.
\<close>

theorem clipped_text_exceeds_cap_by_three:
  "ni_text (captureItem (getCfg default_config) empty_event 1000 User (replicate 4001 0x61)
              (ascii ''hash''))
     = replicate 4000 0x61 @ [0xE2, 0x20AC, 0xA6]
   \<and> int (length (ni_text (captureItem (getCfg default_config) empty_event 1000 User
                              (replicate 4001 0x61) (ascii ''hash''))))
     = captureMaxChars (getCfg default_config) + 3"
  by (simp add: captureItem_def clip_def slice0_def ELLIPSIS_def getCfg_def default_config_def
      orDefault_def)



subsection \<open>The recall assembler\<close>

lemmas recall_defs =
  before_agent_start_def recall_def lexicalResults_def shortTermBlock_def shortTermRows_def
  shortTermLine_def rowText_def wrapShortTerm_def wrapRelevant_def memoryLine_def NL_def
  SHORT_TERM_OPEN_def SHORT_TERM_CLOSE_def RELEVANT_CLOSE_def ELLIPSIS_def truthy_def
  session_row_def start_world_def logMsg_def maybeLogHybridDegraded_def

text \<open>
  C6, as claimed: a prompt shorter than five characters skips the long-term search only,
  and the short-term block of the session is still returned. The handler returns before
  it opens the store: for the prompt \<open>hi\<close> in a session with two captures it returns
  nothing, although the short-term block of that session is not empty and is what the
  handler returns for the prompt \<open>hello\<close>.
\<close>

theorem short_prompt_counterexample:
  "before_agent_start test_runtime default_config ProbeOk 1000
     \<lparr>be_prompt = Some (ascii ''hi''), be_sessionKey = Some (ascii ''s1'')\<rparr> chat_world
   = (None, chat_world)
   \<and> shortTermBlock (w_db chat_world) (Some (ascii ''s1'')) \<noteq> []
   \<and> fst (before_agent_start test_runtime default_config ProbeOk 1000
       \<lparr>be_prompt = Some (ascii ''hello''), be_sessionKey = Some (ascii ''s1'')\<rparr> chat_world)
     = Some (shortTermBlock (w_db chat_world) (Some (ascii ''s1'')))"
  by (simp add: recall_defs run_defs chat_world_def)


text \<open>
  C6, amended. When the trimmed prompt is shorter than five characters the handler
  returns no context at all and has no effect: neither block is assembled, whatever the
  session.
\<close>

theorem short_prompt_skips_everything:
  assumes "length (trim (orDefault (be_prompt ev) [])) < 5"
  shows "before_agent_start rt pc pr now ev w = (None, w)"
  using assms by (simp add: before_agent_start_def Let_def)

theorem short_prompt_witness:
  "before_agent_start test_runtime default_config ProbeOk 1000
     \<lparr>be_prompt = Some (ascii ''  yes  ''), be_sessionKey = Some (ascii ''s1'')\<rparr> chat_world
   = (None, chat_world)"
proof -
  have "length (trim (orDefault (be_prompt
           \<lparr>be_prompt = Some (ascii ''  yes  ''), be_sessionKey = Some (ascii ''s1'')\<rparr>) [])) < 5"
    by (simp add: run_defs)
  from short_prompt_skips_everything [OF this] show ?thesis .
qed

subsection \<open>The short-term block\<close>

lemma collapseWs_replicate:
  "\<not> isWhiteSpace c \<Longrightarrow> collapseWs (replicate n c) = replicate n c"
  by (induction n) simp_all

lemma shortTermLine_pos: "0 < length (shortTermLine r)"
  by (simp add: shortTermLine_def Let_def ascii_def)

lemma renderedLines_Cons:
  "renderedLines (r # rs) =
     (if rowText r = [] then renderedLines rs else shortTermLine r # renderedLines rs)"
  by (simp add: renderedLines_def)

lemma shortTermLines_char:
  "\<exists>k\<le>length (renderedLines rows).
      shortTermLines rows count chars lines = lines @ take k (renderedLines rows)
      \<and> (count \<le> 15 \<longrightarrow> count + k \<le> 15)
      \<and> (chars \<le> 2000 \<longrightarrow>
            chars + sum_list (map length (take k (renderedLines rows))) \<le> 2000)
      \<and> (k < length (renderedLines rows) \<longrightarrow>
            15 \<le> count + k
            \<or> 2000 < chars + sum_list (map length (take k (renderedLines rows)))
                       + length (renderedLines rows ! k))"
proof (induction rows arbitrary: count chars lines)
  case Nil
  then show ?case by (simp add: renderedLines_def)
next
  case (Cons r rs)
  consider (stop) "count \<ge> 15 \<or> chars \<ge> 2000"
    | (empty) "\<not> (count \<ge> 15 \<or> chars \<ge> 2000)" "rowText r = []"
    | (over) "\<not> (count \<ge> 15 \<or> chars \<ge> 2000)" "rowText r \<noteq> []"
        "chars + length (shortTermLine r) > 2000"
    | (add) "\<not> (count \<ge> 15 \<or> chars \<ge> 2000)" "rowText r \<noteq> []"
        "\<not> chars + length (shortTermLine r) > 2000"
    by blast
  then show ?case
  proof cases
    case stop
    have "0 < length (renderedLines (r # rs)) \<longrightarrow>
            15 \<le> count \<or> 2000 < chars + length (renderedLines (r # rs) ! 0)"
    proof
      assume "0 < length (renderedLines (r # rs))"
      then have "renderedLines (r # rs) ! 0 \<in> set (renderedLines (r # rs))"
        by (rule nth_mem)
      then obtain r' where "renderedLines (r # rs) ! 0 = shortTermLine r'"
        by (auto simp: renderedLines_def)
      moreover from shortTermLine_pos [of r'] stop
      have "15 \<le> count \<or> 2000 < chars + length (shortTermLine r')"
        by arith
      ultimately show "15 \<le> count \<or> 2000 < chars + length (renderedLines (r # rs) ! 0)"
        by simp
    qed
    with stop show ?thesis
      by (intro exI [of _ 0]) auto
  next
    case empty
    with Cons.IH [of count chars lines] show ?thesis
      by (simp add: renderedLines_Cons)
  next
    case over
    then show ?thesis
      by (intro exI [of _ 0]) (simp add: renderedLines_Cons Let_def)
  next
    case add
    let ?l = "shortTermLine r"
    from Cons.IH [of "count + 1" "chars + length ?l" "lines @ [?l]"]
    obtain k where k: "k \<le> length (renderedLines rs)"
      "shortTermLines rs (count + 1) (chars + length ?l) (lines @ [?l])
         = (lines @ [?l]) @ take k (renderedLines rs)"
      "count + 1 \<le> 15 \<longrightarrow> count + 1 + k \<le> 15"
      "chars + length ?l \<le> 2000 \<longrightarrow>
         chars + length ?l + sum_list (map length (take k (renderedLines rs))) \<le> 2000"
      "k < length (renderedLines rs) \<longrightarrow>
         15 \<le> count + 1 + k
         \<or> 2000 < chars + length ?l + sum_list (map length (take k (renderedLines rs)))
                    + length (renderedLines rs ! k)"
      by blast
    with add show ?thesis
      by (intro exI [of _ "Suc k"]) (auto simp: renderedLines_Cons Let_def)
  qed
qed

lemma length_join:
  "length (join sep ls) = sum_list (map length ls) + length sep * (length ls - 1)"
  by (induction sep ls rule: join.induct) simp_all

lemma fetched_rows_oldest_first:
  "sorted (map it_created_at (rev (shortTermRows d sid)))
   \<and> length (rev (shortTermRows d sid)) \<le> 50"
proof -
  let ?ys = "sort_key it_created_at
               (filter (\<lambda>r. it_session_id r = Some sid \<and>
                      (it_tags r = Some (ascii ''user'') \<or> it_tags r = Some (ascii ''assistant'')))
                  (items d))"
  have "rev (shortTermRows d sid) = drop (length ?ys - 50) ?ys"
    by (simp add: shortTermRows_def rev_take)
  moreover have "sorted (map it_created_at ?ys)" by (rule sorted_sort_key)
  then have "sorted (map it_created_at (drop (length ?ys - 50) ?ys))"
    by (simp add: drop_map [symmetric] sorted_wrt_drop)
  ultimately show ?thesis by (simp add: shortTermRows_def)
qed

lemmas budget_defs =
  budget_db_def session_row_def empty_db_def shortTermBlock_def shortTermRows_def
  shortTermLine_def rowText_def wrapShortTerm_def NL_def SHORT_TERM_OPEN_def
  SHORT_TERM_CLOSE_def ascii_def trim_def isWhiteSpace_def collapseWs_replicate Let_def
  orDefault_def length_join

text \<open>
  C7, as claimed: the short-term block never exceeds 2000 characters. The budget counts
  the characters of the message lines only. Ten lines of 200 characters fill it exactly;
  the block adds nine line breaks between them, the two markers and the header line.
\<close>

theorem short_term_block_over_budget:
  "length (shortTermBlock budget_db (Some (ascii ''s1''))) = 2082
   \<and> 2000 < length (shortTermBlock budget_db (Some (ascii ''s1'')))"
  by (simp add: budget_defs)


text \<open>
  C7, amended. The rows are walked oldest first. The block holds at most 15 message
  lines, and their lengths add up to at most 2000, line breaks, markers and header not
  counted; the block as a whole has at most 2087 characters. The lines kept are the
  first lines of the session's rows, each one whole; when a line is left out, either 15
  are kept or that line would have taken the sum over 2000.
\<close>

theorem short_term_lines_within_budget:
  "length (sessionLines d sid) \<le> 15
   \<and> sum_list (map length (sessionLines d sid)) \<le> 2000
   \<and> sorted (map it_created_at (sessionRows d sid))
   \<and> prefix (sessionLines d sid) (renderedLines (sessionRows d sid))
   \<and> (length (sessionLines d sid) < length (renderedLines (sessionRows d sid)) \<longrightarrow>
        length (sessionLines d sid) = 15
        \<or> 2000 < sum_list (map length (sessionLines d sid))
                   + length (renderedLines (sessionRows d sid) ! length (sessionLines d sid)))
   \<and> shortTermBlock d (Some sid) =
        (if sid = [] \<or> sessionLines d sid = [] then [] else wrapShortTerm (sessionLines d sid))
   \<and> length (shortTermBlock d (Some sid)) \<le> 2087"
proof -
  let ?rows = "sessionRows d sid"
  from shortTermLines_char [of ?rows 0 0 "[]"] obtain k where
    k: "k \<le> length (renderedLines ?rows)"
      "sessionLines d sid = take k (renderedLines ?rows)"
      "k \<le> 15" "sum_list (map length (take k (renderedLines ?rows))) \<le> 2000"
      "k < length (renderedLines ?rows) \<longrightarrow>
         15 \<le> k \<or> 2000 < sum_list (map length (take k (renderedLines ?rows)))
                             + length (renderedLines ?rows ! k)"
    by (auto simp: sessionLines_def)
  from k(1,2) have len: "length (sessionLines d sid) = k" by simp
  have pre: "prefix (sessionLines d sid) (renderedLines ?rows)"
    unfolding k(2) by (rule take_is_prefix)
  have "length (wrapShortTerm (sessionLines d sid))
          = 73 + (sum_list (map length (take k (renderedLines ?rows))) + (k - 1))"
    using len by (simp add: wrapShortTerm_def length_join NL_def SHORT_TERM_OPEN_def
        SHORT_TERM_CLOSE_def ascii_def k(2))
  with k(3,4) have w: "length (wrapShortTerm (sessionLines d sid)) \<le> 2087" by simp
  have blk: "shortTermBlock d (Some sid) =
        (if sid = [] \<or> sessionLines d sid = [] then [] else wrapShortTerm (sessionLines d sid))"
    by (simp add: shortTermBlock_def sessionLines_def sessionRows_def Let_def)
  with w have bl: "length (shortTermBlock d (Some sid)) \<le> 2087" by simp
  have srt: "sorted (map it_created_at ?rows)"
    using fetched_rows_oldest_first [of d sid] by (simp add: sessionRows_def)
  from k(3,4,5) len pre blk bl srt show ?thesis
    unfolding k(2) [symmetric] len by auto
qed

theorem short_term_budget_witness:
  "length (sessionLines budget_db (ascii ''s1''))
     < length (renderedLines (sessionRows budget_db (ascii ''s1'')))
   \<and> (length (sessionLines budget_db (ascii ''s1'')) = 15
      \<or> 2000 < sum_list (map length (sessionLines budget_db (ascii ''s1'')))
                 + length (renderedLines (sessionRows budget_db (ascii ''s1''))
                             ! length (sessionLines budget_db (ascii ''s1''))))"
proof -
  have h: "length (sessionLines budget_db (ascii ''s1''))
             < length (renderedLines (sessionRows budget_db (ascii ''s1'')))"
    by (simp add: budget_defs sessionLines_def sessionRows_def renderedLines_def)
  with short_term_lines_within_budget [of budget_db "ascii ''s1''"] show ?thesis
    by blast
qed



subsection \<open>The degradation guard\<close>






subsection \<open>Retention\<close>





lemma gcDelete_effect:
  assumes "gcDelete sf ids d = Inr (cnt, d2)"
  shows "items d2 = filter (\<lambda>r. it_id r \<notin> set ids) (items d)
       \<and> embeddings d2 = filter (\<lambda>e. emb_item_id e \<notin> set ids) (embeddings d)
       \<and> facts d2 = facts d"
  using assms by (auto simp: gcDelete_def Let_def split: if_splits option.splits)

lemma memory_gc_post:
  assumes "memory_gc rt sf pc params now d = (res, d')"
  shows "(d' = d \<and> (\<forall>c a b. res \<noteq> Inr (GcDeleted c a b)))
       \<or> (\<exists>days a b. gcDays pc params = Some days \<and> gp_dryRun params = Some False
            \<and> res = Inr (GcDeleted (gcCutoff now days) a b)
            \<and> items d' = filter (\<lambda>r. it_id r \<notin> it_id ` set (gcCandidates pc params now days d))
                            (items d)
            \<and> embeddings d' =
                filter (\<lambda>e. emb_item_id e \<notin> it_id ` set (gcCandidates pc params now days d))
                  (embeddings d))"
proof (cases "\<exists>c a b. res = Inr (GcDeleted c a b)")
  case False
  with assms show ?thesis
    by (auto simp: memory_gc_def transaction_def vacuum_def Let_def
        split: option.splits sum.splits prod.splits if_splits)
next
  case True
  with assms obtain days a b d2 where
    d: "gcDays pc params = Some days" "gp_dryRun params = Some False"
      "res = Inr (GcDeleted (gcCutoff now days) a b)"
      "gcDelete sf (map it_id (gcCandidates pc params now days d)) d = Inr ((a, b), d2)"
      "d' = d2"
    by (auto simp: memory_gc_def transaction_def vacuum_def Let_def gcCandidates_def
        split: option.splits sum.splits prod.splits if_splits)
  from gcDelete_effect [OF d(4)] d(1,2,3,5) show ?thesis by auto
qed

lemmas gc_defs =
  memory_gc_def gcDays_def gcProtectedTags_def gcCutoff_def gcLimit_def gcRows_def gcWhere_def
  gcDelete_def transaction_def vacuum_def gcCandidates_def gcEligible_def gc_request_def
  gc_db_def gc_item_def gc_now_def DAY_def no_faults_def getCfg_def default_config_def
  orDefault_def test_runtime_def ascii_def Let_def




text \<open>
  C4. After any run of \<open>memory_gc\<close>, whichever statement fails: if an item is gone, no
  embedding row of it remains, and if an embedding row is gone, its item does not remain;
  a run that throws leaves the store as it was. Whether \<open>VACUUM\<close> fails changes neither
  the result nor the store.
\<close>

theorem gc_delete_is_atomic:
  assumes "memory_gc rt sf pc params now d = (res, d')"
  shows "(\<forall>r\<in>set (items d). r \<notin> set (items d') \<longrightarrow>
            (\<forall>e\<in>set (embeddings d'). emb_item_id e \<noteq> it_id r))
       \<and> (\<forall>e\<in>set (embeddings d). e \<notin> set (embeddings d') \<longrightarrow>
            (\<forall>r\<in>set (items d'). it_id r \<noteq> emb_item_id e))
       \<and> ((\<exists>e. res = Inl e) \<longrightarrow> d' = d)
       \<and> memory_gc rt (sf\<lparr>sf_vacuum := v\<rparr>) pc params now d = (res, d')"
proof -
  have vac: "memory_gc rt (sf\<lparr>sf_vacuum := v\<rparr>) pc params now d = memory_gc rt sf pc params now d"
    by (simp add: memory_gc_def transaction_def vacuum_def gcDelete_def Let_def
        split: option.splits sum.splits prod.splits)
  from memory_gc_post [OF assms] vac assms show ?thesis by auto
qed

theorem gc_atomic_witness:
  "memory_gc test_runtime (no_faults\<lparr>sf_vacuum := Some (Error (ascii ''disk full''))\<rparr>)
     default_config (gc_request False 1000) gc_now gc_db
   = (Inr (GcDeleted (70 * DAY) 2 2),
      \<lparr>items = [gc_item ''A'' (60 * DAY) ''personal''],
       embeddings = [\<lparr>emb_item_id = ascii ''A''\<rparr>], facts = []\<rparr>)
   \<and> snd (memory_gc test_runtime (no_faults\<lparr>sf_deleteItems := Some (Error (ascii ''busy''))\<rparr>)
           default_config (gc_request False 1000) gc_now gc_db) = gc_db"
proof -
  have run: "memory_gc test_runtime no_faults default_config (gc_request False 1000) gc_now gc_db
     = (Inr (GcDeleted (70 * DAY) 2 2),
        \<lparr>items = [gc_item ''A'' (60 * DAY) ''personal''],
         embeddings = [\<lparr>emb_item_id = ascii ''A''\<rparr>], facts = []\<rparr>)"
    by (simp add: gc_defs)
  let ?f = "memory_gc test_runtime (no_faults\<lparr>sf_deleteItems := Some (Error (ascii ''busy''))\<rparr>)
              default_config (gc_request False 1000) gc_now gc_db"
  have f: "fst ?f = Inl (Error (ascii ''busy''))"
    by (simp add: gc_defs)
  then have fr: "?f = (Inl (Error (ascii ''busy'')), snd ?f)"
    by (metis prod.collapse)
  from gc_delete_is_atomic [OF run, of "Some (Error (ascii ''disk full''))"]
    gc_delete_is_atomic [OF fr]
  show ?thesis by blast
qed


end
